theory Spec2Isabelle
  imports Main "HOL-Library.Word"
begin

unbundle bit_operations_syntax

section \<open>Keyboard and clipboard input: the InputHandler\<close>

text \<open>
  A JavaScript string is modelled as the list of its UTF-16 code units, each a \<open>char\<close>;
  \<open>length\<close> is the \<open>.length\<close> of the source and \<open>of_char\<close> is \<open>charCodeAt\<close>. The only
  test the source makes on a code unit is \<open>< 128\<close>, so code units above 255 behave like
  those between 128 and 255.
\<close>

subsection \<open>Key codes and modifier flags\<close>

text \<open>
  Modelled from the spec: the \<open>Key\<close> enum of \<open>./types\<close>, which is imported by the
  input handler but is not among the source files. A member is identified by its name,
  \<open>Key.ENTER\<close> is \<open>Key ''ENTER''\<close>; the handler compares keys for equality only.
\<close>

datatype Key = Key string

datatype KeyAction = KeyAction_RELEASE | KeyAction_PRESS | KeyAction_REPEAT

text \<open>
  Modelled from the spec: the \<open>Mods\<close> flags of \<open>./types\<close> (not among the source files),
  "a bit flag union of none, shift, ctrl, alt, super": \<open>NONE\<close> is the empty union and
  every other flag is a bit of its own. The handler combines them with \<open>|=\<close> and compares
  the union with \<open>NONE\<close> and \<open>SHIFT\<close>.
\<close>

type_synonym Mods = "32 word"

definition Mods_NONE :: Mods where "Mods_NONE = 0"
definition Mods_SHIFT :: Mods where "Mods_SHIFT = 1"
definition Mods_CTRL :: Mods where "Mods_CTRL = 2"
definition Mods_ALT :: Mods where "Mods_ALT = 4"
definition Mods_SUPER :: Mods where "Mods_SUPER = 8"

subsection \<open>Events, collaborators and observable effects\<close>

record KeyboardEvent =
  code :: string
  key :: string
  ctrlKey :: bool
  altKey :: bool
  shiftKey :: bool
  metaKey :: bool

text \<open>
  The clipboard payload: the data stored per format. \<open>getData\<close> answers the empty string
  for a format that holds nothing. \<open>clipboardData\<close> is \<open>None\<close> where the source reads
  \<open>null\<close>.
\<close>

type_synonym DataTransfer = "(string \<times> string) list"

definition getData :: "DataTransfer \<Rightarrow> string \<Rightarrow> string" where
  "getData d format = (case map_of d format of None \<Rightarrow> [] | Some t \<Rightarrow> t)"

record ClipboardEvent =
  clipboardData :: "DataTransfer option"

text \<open>The argument of the advanced encoder's \<open>encode\<close>.\<close>

record EncodeRequest =
  enc_action :: KeyAction
  enc_key :: Key
  enc_mods :: Mods
  enc_utf8 :: "string option"

text \<open>
  What a handler call does to the outside: calls on the event object, on the callbacks
  given at construction, and on the console, in the order they happen.
\<close>

datatype effect =
    PreventDefault
  | StopPropagation
  | OnData string
  | OnKey string
  | OnBell
  | CustomKeyEventHandler
  | ConsoleWarn "string list"

text \<open>
  The handler object. The advanced encoder and the platform's text decoder are
  collaborators: \<open>encoder\<close> answers \<open>Inl\<close> with the error where \<open>encode\<close> throws.
  \<open>onKeyCallback\<close> tells whether a raw-key callback was given; the custom handler is
  the optional predicate of the source. \<open>listeners\<close> is the container's listener table
  as far as this handler registered in it (the event types).
\<close>

record InputHandler =
  encoder :: "EncodeRequest \<Rightarrow> string + 8 word list"
  decoder :: "8 word list \<Rightarrow> string"
  onKeyCallback :: bool
  customKeyEventHandler :: "(KeyboardEvent \<Rightarrow> bool) option"
  keydownListener :: bool
  keypressListener :: bool
  pasteListener :: bool
  isDisposed :: bool
  listeners :: "string list"

subsection \<open>The binding table\<close>

definition KEY_MAP :: "(string \<times> Key) list" where
  "KEY_MAP = [
    (''KeyA'', Key ''A''), (''KeyB'', Key ''B''), (''KeyC'', Key ''C''), (''KeyD'', Key ''D''),
    (''KeyE'', Key ''E''), (''KeyF'', Key ''F''), (''KeyG'', Key ''G''), (''KeyH'', Key ''H''),
    (''KeyI'', Key ''I''), (''KeyJ'', Key ''J''), (''KeyK'', Key ''K''), (''KeyL'', Key ''L''),
    (''KeyM'', Key ''M''), (''KeyN'', Key ''N''), (''KeyO'', Key ''O''), (''KeyP'', Key ''P''),
    (''KeyQ'', Key ''Q''), (''KeyR'', Key ''R''), (''KeyS'', Key ''S''), (''KeyT'', Key ''T''),
    (''KeyU'', Key ''U''), (''KeyV'', Key ''V''), (''KeyW'', Key ''W''), (''KeyX'', Key ''X''),
    (''KeyY'', Key ''Y''), (''KeyZ'', Key ''Z''),
    (''Digit1'', Key ''ONE''), (''Digit2'', Key ''TWO''), (''Digit3'', Key ''THREE''),
    (''Digit4'', Key ''FOUR''), (''Digit5'', Key ''FIVE''), (''Digit6'', Key ''SIX''),
    (''Digit7'', Key ''SEVEN''), (''Digit8'', Key ''EIGHT''), (''Digit9'', Key ''NINE''),
    (''Digit0'', Key ''ZERO''),
    (''Enter'', Key ''ENTER''), (''Escape'', Key ''ESCAPE''), (''Backspace'', Key ''BACKSPACE''),
    (''Tab'', Key ''TAB''), (''Space'', Key ''SPACE''),
    (''Minus'', Key ''MINUS''), (''Equal'', Key ''EQUAL''),
    (''BracketLeft'', Key ''BRACKET_LEFT''), (''BracketRight'', Key ''BRACKET_RIGHT''),
    (''Backslash'', Key ''BACKSLASH''), (''Semicolon'', Key ''SEMICOLON''),
    (''Quote'', Key ''QUOTE''), (''Backquote'', Key ''GRAVE''), (''Comma'', Key ''COMMA''),
    (''Period'', Key ''PERIOD''), (''Slash'', Key ''SLASH''),
    (''CapsLock'', Key ''CAPS_LOCK''),
    (''F1'', Key ''F1''), (''F2'', Key ''F2''), (''F3'', Key ''F3''), (''F4'', Key ''F4''),
    (''F5'', Key ''F5''), (''F6'', Key ''F6''), (''F7'', Key ''F7''), (''F8'', Key ''F8''),
    (''F9'', Key ''F9''), (''F10'', Key ''F10''), (''F11'', Key ''F11''), (''F12'', Key ''F12''),
    (''PrintScreen'', Key ''PRINT_SCREEN''), (''ScrollLock'', Key ''SCROLL_LOCK''),
    (''Pause'', Key ''PAUSE''), (''Insert'', Key ''INSERT''), (''Home'', Key ''HOME''),
    (''PageUp'', Key ''PAGE_UP''), (''Delete'', Key ''DELETE''), (''End'', Key ''END''),
    (''PageDown'', Key ''PAGE_DOWN''),
    (''ArrowRight'', Key ''RIGHT''), (''ArrowLeft'', Key ''LEFT''),
    (''ArrowDown'', Key ''DOWN''), (''ArrowUp'', Key ''UP''),
    (''NumLock'', Key ''NUM_LOCK''), (''NumpadDivide'', Key ''KP_DIVIDE''),
    (''NumpadMultiply'', Key ''KP_MULTIPLY''), (''NumpadSubtract'', Key ''KP_MINUS''),
    (''NumpadAdd'', Key ''KP_PLUS''), (''NumpadEnter'', Key ''KP_ENTER''),
    (''Numpad1'', Key ''KP_1''), (''Numpad2'', Key ''KP_2''), (''Numpad3'', Key ''KP_3''),
    (''Numpad4'', Key ''KP_4''), (''Numpad5'', Key ''KP_5''), (''Numpad6'', Key ''KP_6''),
    (''Numpad7'', Key ''KP_7''), (''Numpad8'', Key ''KP_8''), (''Numpad9'', Key ''KP_9''),
    (''Numpad0'', Key ''KP_0''), (''NumpadDecimal'', Key ''KP_PERIOD''),
    (''IntlBackslash'', Key ''NON_US_BACKSLASH''), (''ContextMenu'', Key ''APPLICATION''),
    (''F13'', Key ''F13''), (''F14'', Key ''F14''), (''F15'', Key ''F15''), (''F16'', Key ''F16''),
    (''F17'', Key ''F17''), (''F18'', Key ''F18''), (''F19'', Key ''F19''), (''F20'', Key ''F20''),
    (''F21'', Key ''F21''), (''F22'', Key ''F22''), (''F23'', Key ''F23''), (''F24'', Key ''F24'')]"

definition mapKeyCode :: "string \<Rightarrow> Key option" where
  "mapKeyCode c = map_of KEY_MAP c"

definition extractModifiers :: "KeyboardEvent \<Rightarrow> Mods" where
  "extractModifiers event =
     (let mods = Mods_NONE;
          mods = (if shiftKey event then mods OR Mods_SHIFT else mods);
          mods = (if ctrlKey event then mods OR Mods_CTRL else mods);
          mods = (if altKey event then mods OR Mods_ALT else mods);
          mods = (if metaKey event then mods OR Mods_SUPER else mods)
      in mods)"

definition isPrintableCharacter :: "KeyboardEvent \<Rightarrow> bool" where
  "isPrintableCharacter event =
     (if ctrlKey event \<and> \<not> altKey event then False
      else if altKey event \<and> \<not> ctrlKey event then False
      else if metaKey event then False
      else length (key event) = 1)"

text \<open>The \<open>switch\<close> of \<open>handleKeyDown\<close>: \<open>None\<close> where \<open>simpleOutput\<close> stays \<open>null\<close>.\<close>

definition ESC :: char where "ESC = CHR 0x1B"

definition simpleOutput :: "Key \<Rightarrow> string option" where
  "simpleOutput k =
     (if k = Key ''ENTER'' then Some [CHR 0x0D]
      else if k = Key ''TAB'' then Some [CHR 0x09]
      else if k = Key ''BACKSPACE'' then Some [CHR 0x7F]
      else if k = Key ''ESCAPE'' then Some [ESC]
      else if k = Key ''UP'' then Some (ESC # ''[A'')
      else if k = Key ''DOWN'' then Some (ESC # ''[B'')
      else if k = Key ''RIGHT'' then Some (ESC # ''[C'')
      else if k = Key ''LEFT'' then Some (ESC # ''[D'')
      else if k = Key ''HOME'' then Some (ESC # ''[H'')
      else if k = Key ''END'' then Some (ESC # ''[F'')
      else if k = Key ''INSERT'' then Some (ESC # ''[2~'')
      else if k = Key ''DELETE'' then Some (ESC # ''[3~'')
      else if k = Key ''PAGE_UP'' then Some (ESC # ''[5~'')
      else if k = Key ''PAGE_DOWN'' then Some (ESC # ''[6~'')
      else if k = Key ''F1'' then Some (ESC # ''OP'')
      else if k = Key ''F2'' then Some (ESC # ''OQ'')
      else if k = Key ''F3'' then Some (ESC # ''OR'')
      else if k = Key ''F4'' then Some (ESC # ''OS'')
      else if k = Key ''F5'' then Some (ESC # ''[15~'')
      else if k = Key ''F6'' then Some (ESC # ''[17~'')
      else if k = Key ''F7'' then Some (ESC # ''[18~'')
      else if k = Key ''F8'' then Some (ESC # ''[19~'')
      else if k = Key ''F9'' then Some (ESC # ''[20~'')
      else if k = Key ''F10'' then Some (ESC # ''[21~'')
      else if k = Key ''F11'' then Some (ESC # ''[23~'')
      else if k = Key ''F12'' then Some (ESC # ''[24~'')
      else None)"

text \<open>\<open>toLowerCase\<close> on a string of code units below 128.\<close>

definition toLowerCase :: "string \<Rightarrow> string" where
  "toLowerCase s =
     map (\<lambda>c. if (65::nat) \<le> of_char c \<and> of_char c \<le> (90::nat)
              then char_of (of_char c + (32::nat)) else c) s"

text \<open>
  The literal hint handed to the encoder: the lower-cased key when it is one code unit
  below 128, \<open>undefined\<close> otherwise.
\<close>

definition utf8_hint :: "KeyboardEvent \<Rightarrow> string option" where
  "utf8_hint event =
     (if length (key event) = 1 \<and> of_char (hd (key event)) < (128::nat)
      then Some (toLowerCase (key event)) else None)"

subsection \<open>handleKeyDown\<close>

text \<open>
  The return points of \<open>handleKeyDown\<close>, in the order of the source, so that a statement
  can say which branch handled an event.
\<close>

datatype key_path =
    PathDisposed
  | PathCustom
  | PathPasteChord
  | PathCopyChord
  | PathPrintable
  | PathUnmapped
  | PathSimple
  | PathEncoded
  | PathEncodeFailed

definition custom_handled :: "InputHandler \<Rightarrow> KeyboardEvent \<Rightarrow> bool" where
  "custom_handled h event =
     (case customKeyEventHandler h of None \<Rightarrow> False | Some f \<Rightarrow> f event)"

text \<open>The calls made before any branch is chosen: the raw-key callback, the override.\<close>

definition notify :: "InputHandler \<Rightarrow> KeyboardEvent \<Rightarrow> effect list" where
  "notify h event =
     (if onKeyCallback h then [OnKey (key event)] else []) @
     (if customKeyEventHandler h \<noteq> None then [CustomKeyEventHandler] else [])"

definition encodeKey :: "InputHandler \<Rightarrow> KeyboardEvent \<Rightarrow> Key \<Rightarrow> Mods \<Rightarrow> key_path \<times> effect list" where
  "encodeKey h event k mods =
     (case encoder h \<lparr>enc_action = KeyAction_PRESS, enc_key = k, enc_mods = mods,
                      enc_utf8 = utf8_hint event\<rparr> of
        Inl error \<Rightarrow>
          (PathEncodeFailed, [ConsoleWarn [''Failed to encode key:'', code event, error]])
      | Inr encoded \<Rightarrow>
          (let data = decoder h encoded
           in (PathEncoded,
               [PreventDefault, StopPropagation] @
               (if length data > 0 then [OnData data] else []))))"

definition handleKeyDown :: "InputHandler \<Rightarrow> KeyboardEvent \<Rightarrow> key_path \<times> effect list" where
  "handleKeyDown h event =
     (if isDisposed h then (PathDisposed, [])
      else if custom_handled h event then (PathCustom, notify h event @ [PreventDefault])
      else if (ctrlKey event \<or> metaKey event) \<and> code event = ''KeyV''
        then (PathPasteChord, notify h event)
      else if metaKey event \<and> code event = ''KeyC''
        then (PathCopyChord, notify h event)
      else if isPrintableCharacter event
        then (PathPrintable, notify h event @ [PreventDefault, OnData (key event)])
      else
        (case mapKeyCode (code event) of
           None \<Rightarrow> (PathUnmapped, notify h event)
         | Some k \<Rightarrow>
             (let mods = extractModifiers event
              in if (mods = Mods_NONE \<or> mods = Mods_SHIFT) \<and> simpleOutput k \<noteq> None
                 then (PathSimple,
                       notify h event @ [PreventDefault, OnData (the (simpleOutput k))])
                 else (let (p, fx) = encodeKey h event k mods
                       in (p, notify h event @ fx)))))"

subsection \<open>handlePaste, attach, dispose\<close>

definition handlePaste :: "InputHandler \<Rightarrow> ClipboardEvent \<Rightarrow> effect list" where
  "handlePaste h event =
     (if isDisposed h then []
      else [PreventDefault, StopPropagation] @
        (case clipboardData event of
           None \<Rightarrow> [ConsoleWarn [''No clipboard data available'']]
         | Some d \<Rightarrow>
             (let text = getData d ''text/plain''
              in if text = [] then [ConsoleWarn [''No text in clipboard'']]
                 else [OnData text])))"

text \<open>
  \<open>attach\<close> registers the two listeners. It also sets the container's \<open>tabindex\<close> and
  outline, which no handler reads; they are left out.
\<close>

definition attach :: "InputHandler \<Rightarrow> InputHandler" where
  "attach h =
     h\<lparr>keydownListener := True,
       pasteListener := True,
       listeners := listeners h @ [''keydown'', ''paste'']\<rparr>"

definition InputHandler_new ::
  "(EncodeRequest \<Rightarrow> string + 8 word list) \<Rightarrow> (8 word list \<Rightarrow> string) \<Rightarrow> bool \<Rightarrow>
   (KeyboardEvent \<Rightarrow> bool) option \<Rightarrow> InputHandler" where
  "InputHandler_new enc dec onKey custom =
     attach \<lparr>encoder = enc, decoder = dec, onKeyCallback = onKey,
             customKeyEventHandler = custom, keydownListener = False,
             keypressListener = False, pasteListener = False, isDisposed = False,
             listeners = []\<rparr>"

definition setCustomKeyEventHandler :: "(KeyboardEvent \<Rightarrow> bool) \<Rightarrow> InputHandler \<Rightarrow> InputHandler" where
  "setCustomKeyEventHandler handler h = h\<lparr>customKeyEventHandler := Some handler\<rparr>"

definition removeEventListener :: "string \<Rightarrow> string list \<Rightarrow> string list" where
  "removeEventListener type ls = remove1 type ls"

definition dispose :: "InputHandler \<Rightarrow> InputHandler" where
  "dispose h =
     (if isDisposed h then h
      else
        (let h = (if keydownListener h
                  then h\<lparr>listeners := removeEventListener ''keydown'' (listeners h),
                         keydownListener := False\<rparr>
                  else h);
             h = (if keypressListener h
                  then h\<lparr>listeners := removeEventListener ''keypress'' (listeners h),
                         keypressListener := False\<rparr>
                  else h);
             h = (if pasteListener h
                  then h\<lparr>listeners := removeEventListener ''paste'' (listeners h),
                         pasteListener := False\<rparr>
                  else h)
         in h\<lparr>isDisposed := True\<rparr>))"

definition isActive :: "InputHandler \<Rightarrow> bool" where
  "isActive h = (\<not> isDisposed h)"

text \<open>
  The container delivering a physical event: it runs the listener registered for the
  event's type, if one still is.
\<close>

datatype dom_event = KeyDown KeyboardEvent | Paste ClipboardEvent

fun dispatchEvent :: "InputHandler \<Rightarrow> dom_event \<Rightarrow> effect list" where
  "dispatchEvent h (KeyDown e) =
     (if ''keydown'' \<in> set (listeners h) then snd (handleKeyDown h e) else [])"
| "dispatchEvent h (Paste e) =
     (if ''paste'' \<in> set (listeners h) then handlePaste h e else [])"

definition output_chunks :: "effect list \<Rightarrow> string list" where
  "output_chunks fx = concat (map (\<lambda>f. case f of OnData s \<Rightarrow> [s] | _ \<Rightarrow> []) fx)"

section \<open>The canvas renderer\<close>

text \<open>
  Grid positions, cell counts, pixel sizes and the device pixel ratio are natural numbers
  (the metrics of the source are rounded up to integers by \<open>measureFont\<close>). What the
  renderer does to the drawing surface and to the buffer is a list of calls, in the order
  of the source; the pixels painted by \<open>renderCell\<close> and \<open>renderCursor\<close> are not
  modelled further, a call of either is one entry.
\<close>

subsection \<open>Data\<close>

record FontMetrics =
  width :: nat
  height :: nat
  baseline :: nat

datatype CursorStyle = Block | Underline | Bar

datatype CellColor = ColorDefault | ColorPalette nat | ColorRGB nat nat nat

record Cell =
  cell_char :: string
  cell_fg :: CellColor
  cell_bg :: CellColor
  cell_width :: nat
  cell_inverse :: bool
  cell_invisible :: bool

record Cursor =
  cursor_x :: nat
  cursor_y :: nat
  cursor_visible :: bool

record Dimensions =
  dim_cols :: nat
  dim_rows :: nat

text \<open>
  The state engine as the renderer sees it during one frame: what \<open>getAllLines\<close>,
  \<open>getCursor\<close>, \<open>getDimensions\<close> and \<open>isDirty\<close> answer.
\<close>

record ScreenBuffer =
  getAllLines :: "Cell list list"
  getCursor :: Cursor
  getDimensions :: Dimensions
  isDirty :: "nat \<Rightarrow> bool"

type_synonym ITheme = "(string \<times> string) list"

definition DEFAULT_THEME :: ITheme where
  "DEFAULT_THEME = [
    (''foreground'', ''#d4d4d4''), (''background'', ''#1e1e1e''),
    (''cursor'', ''#ffffff''), (''cursorAccent'', ''#1e1e1e''),
    (''selectionBackground'', ''#264f78''), (''selectionForeground'', ''#d4d4d4''),
    (''black'', ''#000000''), (''red'', ''#cd3131''), (''green'', ''#0dbc79''),
    (''yellow'', ''#e5e510''), (''blue'', ''#2472c8''), (''magenta'', ''#bc3fbc''),
    (''cyan'', ''#11a8cd''), (''white'', ''#e5e5e5''),
    (''brightBlack'', ''#666666''), (''brightRed'', ''#f14c4c''),
    (''brightGreen'', ''#23d18b''), (''brightYellow'', ''#f5f543''),
    (''brightBlue'', ''#3b8eea''), (''brightMagenta'', ''#d670d6''),
    (''brightCyan'', ''#29b8db''), (''brightWhite'', ''#ffffff'')]"

text \<open>The object spread \<open>{ ...DEFAULT_THEME, ...theme }\<close>.\<close>

definition mergeTheme :: "ITheme \<Rightarrow> ITheme" where
  "mergeTheme t =
     map (\<lambda>(name, v). (name, case map_of t name of None \<Rightarrow> v | Some v' \<Rightarrow> v')) DEFAULT_THEME"

definition buildPalette :: "ITheme \<Rightarrow> string list" where
  "buildPalette t =
     map (\<lambda>name. case map_of t name of None \<Rightarrow> [] | Some v \<Rightarrow> v)
       [''black'', ''red'', ''green'', ''yellow'', ''blue'', ''magenta'', ''cyan'', ''white'',
        ''brightBlack'', ''brightRed'', ''brightGreen'', ''brightYellow'', ''brightBlue'',
        ''brightMagenta'', ''brightCyan'', ''brightWhite'']"

record RendererOptions =
  opt_fontSize :: "nat option"
  opt_fontFamily :: "string option"
  opt_cursorStyle :: "CursorStyle option"
  opt_cursorBlink :: "bool option"
  opt_theme :: "ITheme option"
  opt_devicePixelRatio :: "nat option"

text \<open>
  The renderer object, with the two pieces of the platform it writes to: the canvas
  element's backing-store and style sizes, and the window's table of running interval
  timers (\<open>intervals\<close>, with the next identifier \<open>setInterval\<close> hands out).
\<close>

record CanvasRenderer =
  canvas_width :: nat
  canvas_height :: nat
  style_width :: nat
  style_height :: nat
  fontSize :: nat
  fontFamily :: string
  cursorStyle :: CursorStyle
  cursorBlink :: bool
  theme :: ITheme
  devicePixelRatio :: nat
  metrics :: FontMetrics
  palette :: "string list"
  cursorVisible :: bool
  cursorBlinkInterval :: "nat option"
  lastCursorPosition :: "nat \<times> nat"
  intervals :: "nat list"
  next_interval :: nat

datatype js_error = TypeError | Error string

datatype draw_op =
    Scale nat
  | FillBackground nat nat
  | ClearLine nat nat
  | RenderCell nat nat Cell
  | RenderCursor nat nat
  | ClearDirty

subsection \<open>Cursor blinking\<close>

definition startCursorBlink :: "CanvasRenderer \<Rightarrow> CanvasRenderer" where
  "startCursorBlink r =
     r\<lparr>cursorBlinkInterval := Some (next_interval r),
       intervals := next_interval r # intervals r,
       next_interval := Suc (next_interval r)\<rparr>"

definition stopCursorBlink :: "CanvasRenderer \<Rightarrow> CanvasRenderer" where
  "stopCursorBlink r =
     (let r = (case cursorBlinkInterval r of
                 Some i \<Rightarrow> r\<lparr>intervals := removeAll i (intervals r),
                              cursorBlinkInterval := None\<rparr>
               | None \<Rightarrow> r)
      in r\<lparr>cursorVisible := True\<rparr>)"

text \<open>The timer callback: the window runs it for an interval that is still active.\<close>

definition tick :: "nat \<Rightarrow> CanvasRenderer \<Rightarrow> CanvasRenderer" where
  "tick i r =
     (if i \<in> set (intervals r) then r\<lparr>cursorVisible := \<not> cursorVisible r\<rparr> else r)"

subsection \<open>Construction and the public mutators\<close>

text \<open>
  \<open>measureFont\<close> asks the platform to measure text in the current font; its answer is
  an argument of each operation that measures. \<open>ctx\<close> tells whether the canvas gives a
  2D context, \<open>window_dpr\<close> is \<open>window.devicePixelRatio\<close>.
\<close>

definition CanvasRenderer_new ::
  "nat \<times> nat \<Rightarrow> bool \<Rightarrow> nat option \<Rightarrow> FontMetrics \<Rightarrow> RendererOptions \<Rightarrow> js_error + CanvasRenderer" where
  "CanvasRenderer_new canvas ctx window_dpr measured options =
     (if \<not> ctx then Inl (Error ''Failed to get 2D rendering context'')
      else
        (let th = mergeTheme (case opt_theme options of None \<Rightarrow> [] | Some t \<Rightarrow> t);
             r = \<lparr>canvas_width = fst canvas, canvas_height = snd canvas,
                  style_width = 0, style_height = 0,
                  fontSize = (case opt_fontSize options of None \<Rightarrow> 15 | Some n \<Rightarrow> n),
                  fontFamily = (case opt_fontFamily options of None \<Rightarrow> ''monospace'' | Some f \<Rightarrow> f),
                  cursorStyle = (case opt_cursorStyle options of None \<Rightarrow> Block | Some c \<Rightarrow> c),
                  cursorBlink = (case opt_cursorBlink options of None \<Rightarrow> False | Some b \<Rightarrow> b),
                  theme = th,
                  devicePixelRatio =
                    (case opt_devicePixelRatio options of
                       Some d \<Rightarrow> d
                     | None \<Rightarrow> (case window_dpr of Some d \<Rightarrow> d | None \<Rightarrow> 1)),
                  metrics = measured,
                  palette = buildPalette th,
                  cursorVisible = True,
                  cursorBlinkInterval = None,
                  lastCursorPosition = (0, 0),
                  intervals = [],
                  next_interval = 1\<rparr>
         in Inr (if cursorBlink r then startCursorBlink r else r)))"

definition remeasureFont :: "FontMetrics \<Rightarrow> CanvasRenderer \<Rightarrow> CanvasRenderer" where
  "remeasureFont measured r = r\<lparr>metrics := measured\<rparr>"

definition setTheme :: "ITheme \<Rightarrow> CanvasRenderer \<Rightarrow> CanvasRenderer" where
  "setTheme t r = (let th = mergeTheme t in r\<lparr>theme := th, palette := buildPalette th\<rparr>)"

definition setFontSize :: "nat \<Rightarrow> FontMetrics \<Rightarrow> CanvasRenderer \<Rightarrow> CanvasRenderer" where
  "setFontSize sz measured r = r\<lparr>fontSize := sz, metrics := measured\<rparr>"

definition setFontFamily :: "string \<Rightarrow> FontMetrics \<Rightarrow> CanvasRenderer \<Rightarrow> CanvasRenderer" where
  "setFontFamily family measured r = r\<lparr>fontFamily := family, metrics := measured\<rparr>"

definition setCursorStyle :: "CursorStyle \<Rightarrow> CanvasRenderer \<Rightarrow> CanvasRenderer" where
  "setCursorStyle style r = r\<lparr>cursorStyle := style\<rparr>"

definition setCursorBlink :: "bool \<Rightarrow> CanvasRenderer \<Rightarrow> CanvasRenderer" where
  "setCursorBlink enabled r =
     (if enabled \<and> \<not> cursorBlink r then startCursorBlink (r\<lparr>cursorBlink := True\<rparr>)
      else if \<not> enabled \<and> cursorBlink r then stopCursorBlink (r\<lparr>cursorBlink := False\<rparr>)
      else r)"

definition getMetrics :: "CanvasRenderer \<Rightarrow> FontMetrics" where
  "getMetrics r = metrics r"

definition clear :: "CanvasRenderer \<Rightarrow> draw_op list" where
  "clear r = [FillBackground (canvas_width r) (canvas_height r)]"

definition dispose_renderer :: "CanvasRenderer \<Rightarrow> CanvasRenderer" where
  "dispose_renderer r = stopCursorBlink r"

subsection \<open>resize and render\<close>

definition resize :: "nat \<Rightarrow> nat \<Rightarrow> CanvasRenderer \<Rightarrow> draw_op list \<times> CanvasRenderer" where
  "resize cols rows r =
     (let cssWidth = cols * width (metrics r);
          cssHeight = rows * height (metrics r)
      in ([Scale (devicePixelRatio r), FillBackground cssWidth cssHeight],
          r\<lparr>style_width := cssWidth, style_height := cssHeight,
            canvas_width := cssWidth * devicePixelRatio r,
            canvas_height := cssHeight * devicePixelRatio r\<rparr>))"

text \<open>
  An array read \<open>lines[i]\<close>: \<open>undefined\<close>, here \<open>None\<close>, beyond the end.
\<close>

definition at :: "'a list \<Rightarrow> nat \<Rightarrow> 'a option" where
  "at xs i = (if i < length xs then Some (xs ! i) else None)"

text \<open>
  \<open>renderLine\<close> clears the band of the line, then reads \<open>line.length\<close>: on \<open>undefined\<close>
  that read throws a TypeError, after the band was cleared. The second component tells
  whether the call returned.
\<close>

fun renderLine :: "Cell list option \<Rightarrow> nat \<Rightarrow> nat \<Rightarrow> draw_op list \<times> bool" where
  "renderLine None y cols = ([ClearLine y cols], False)"
| "renderLine (Some line) y cols =
     (ClearLine y cols #
      concat (map (\<lambda>(x, cell). if cell_width cell = 0 then [] else [RenderCell x y cell])
                  (enumerate 0 line)),
      True)"

definition needsResize :: "CanvasRenderer \<Rightarrow> ScreenBuffer \<Rightarrow> bool" where
  "needsResize r buffer =
     (let dims = getDimensions buffer
      in canvas_width r \<noteq> dim_cols dims * width (metrics r) * devicePixelRatio r \<or>
         canvas_height r \<noteq> dim_rows dims * height (metrics r) * devicePixelRatio r)"

definition cursorMoved :: "CanvasRenderer \<Rightarrow> ScreenBuffer \<Rightarrow> bool" where
  "cursorMoved r buffer =
     (cursor_x (getCursor buffer) \<noteq> fst (lastCursorPosition r) \<or>
      cursor_y (getCursor buffer) \<noteq> snd (lastCursorPosition r))"

text \<open>The block of \<open>render\<close> that redraws the cursor's lines ahead of the main loop.\<close>

definition redrawCursorLines :: "CanvasRenderer \<Rightarrow> ScreenBuffer \<Rightarrow> bool \<Rightarrow> draw_op list \<times> bool" where
  "redrawCursorLines r buffer forceAll =
     (let lines = getAllLines buffer;
          cursor = getCursor buffer;
          dims = getDimensions buffer;
          lastY = snd (lastCursorPosition r)
      in if cursorMoved r buffer \<or> cursorBlink r then
           (let (d1, ok1) =
                  (if \<not> forceAll \<and> \<not> isDirty buffer (cursor_y cursor)
                   then renderLine (at lines (cursor_y cursor)) (cursor_y cursor) (dim_cols dims)
                   else ([], True))
            in if \<not> ok1 then (d1, False)
               else if cursorMoved r buffer \<and> lastY \<noteq> cursor_y cursor then
                 (if \<not> forceAll \<and> \<not> isDirty buffer lastY
                  then (let (d2, ok2) = renderLine (at lines lastY) lastY (dim_cols dims)
                        in (d1 @ d2, ok2))
                  else (d1, True))
               else (d1, True))
         else ([], True))"

text \<open>The main loop of \<open>render\<close>, over the lines paired with their indices.\<close>

fun renderLines :: "bool \<Rightarrow> ScreenBuffer \<Rightarrow> (nat \<times> Cell list) list \<Rightarrow> draw_op list" where
  "renderLines forceAll buffer [] = []"
| "renderLines forceAll buffer ((y, line) # rest) =
     (if \<not> forceAll \<and> \<not> isDirty buffer y then []
      else fst (renderLine (Some line) y (dim_cols (getDimensions buffer)))) @
     renderLines forceAll buffer rest"

text \<open>
  \<open>render\<close> answers the calls it made, the renderer afterwards, and the exception it
  threw, if any. An exception leaves the frame at the point of the throw: the cursor is
  not painted, the last cursor position is not recorded, the dirty bits are not cleared.
\<close>

definition render ::
  "CanvasRenderer \<Rightarrow> ScreenBuffer \<Rightarrow> bool \<Rightarrow> draw_op list \<times> CanvasRenderer \<times> js_error option" where
  "render r buffer forceAll =
     (let lines = getAllLines buffer;
          cursor = getCursor buffer;
          dims = getDimensions buffer;
          needs = needsResize r buffer;
          (d0, r) = (if needs then resize (dim_cols dims) (dim_rows dims) r else ([], r));
          forceAll = (if needs then True else forceAll);
          (d1, ok) = redrawCursorLines r buffer forceAll
      in if \<not> ok then (d0 @ d1, r, Some TypeError)
         else
           (let d2 = renderLines forceAll buffer (enumerate 0 lines);
                d3 = (if cursor_visible cursor \<and> cursorVisible r
                      then [RenderCursor (cursor_x cursor) (cursor_y cursor)] else []);
                r = r\<lparr>lastCursorPosition := (cursor_x cursor, cursor_y cursor)\<rparr>;
                d4 = (if \<not> forceAll then [ClearDirty] else [])
            in (d0 @ d1 @ d2 @ d3 @ d4, r, None)))"

text \<open>The lines a frame repainted, in the order of the calls, and the renderer it left.\<close>

definition repainted :: "draw_op list \<Rightarrow> nat list" where
  "repainted ds = concat (map (\<lambda>d. case d of ClearLine y _ \<Rightarrow> [y] | _ \<Rightarrow> []) ds)"

subsection \<open>Sequences of operations\<close>

text \<open>
  The public operations of the renderer, and the tick of an interval timer, as commands;
  an operation that measures the font carries the platform's answer.
\<close>

datatype command =
    Render ScreenBuffer bool
  | Resize nat nat
  | RemeasureFont FontMetrics
  | SetTheme ITheme
  | SetFontSize nat FontMetrics
  | SetFontFamily string FontMetrics
  | SetCursorStyle CursorStyle
  | SetCursorBlink bool
  | GetMetrics
  | Clear
  | Dispose
  | Tick nat

fun exec :: "command \<Rightarrow> CanvasRenderer \<Rightarrow> CanvasRenderer" where
  "exec (Render buffer forceAll) r = fst (snd (render r buffer forceAll))"
| "exec (Resize cols rows) r = snd (resize cols rows r)"
| "exec (RemeasureFont m) r = remeasureFont m r"
| "exec (SetTheme t) r = setTheme t r"
| "exec (SetFontSize n m) r = setFontSize n m r"
| "exec (SetFontFamily f m) r = setFontFamily f m r"
| "exec (SetCursorStyle s) r = setCursorStyle s r"
| "exec (SetCursorBlink b) r = setCursorBlink b r"
| "exec GetMetrics r = r"
| "exec Clear r = r"
| "exec Dispose r = dispose_renderer r"
| "exec (Tick i) r = tick i r"

definition run :: "command list \<Rightarrow> CanvasRenderer \<Rightarrow> CanvasRenderer" where
  "run cmds r = fold exec cmds r"

text \<open>
  The contract the buffer keeps towards the renderer: one line per row, the cursor's row
  within the rows.
\<close>

definition buffer_ok :: "ScreenBuffer \<Rightarrow> bool" where
  "buffer_ok buffer =
     (length (getAllLines buffer) = dim_rows (getDimensions buffer) \<and>
      cursor_y (getCursor buffer) < dim_rows (getDimensions buffer))"

section \<open>Definitions used by the statements\<close>

text \<open>
  The canonical outputs as the specification lists them, by physical key: carriage
  return, tab, the byte 0x1B, \<open>ESC [ A/B/C/D\<close> for the arrows up, down, right, left,
  \<open>ESC O P/Q/R/S\<close> for F1 to F4, \<open>ESC [ n ~\<close> for F5 to F12. This table is written
  from the specification, to be compared with \<open>KEY_MAP\<close> and \<open>simpleOutput\<close>.
\<close>

definition spec_canonical_sequences :: "(string \<times> string) list" where
  "spec_canonical_sequences = [
     (''Enter'', [CHR 0x0D]), (''Tab'', [CHR 0x09]), (''Escape'', [CHR 0x1B]),
     (''ArrowUp'', [CHR 0x1B, CHR ''['', CHR ''A'']),
     (''ArrowDown'', [CHR 0x1B, CHR ''['', CHR ''B'']),
     (''ArrowRight'', [CHR 0x1B, CHR ''['', CHR ''C'']),
     (''ArrowLeft'', [CHR 0x1B, CHR ''['', CHR ''D'']),
     (''F1'', [CHR 0x1B, CHR ''O'', CHR ''P'']),
     (''F2'', [CHR 0x1B, CHR ''O'', CHR ''Q'']),
     (''F3'', [CHR 0x1B, CHR ''O'', CHR ''R'']),
     (''F4'', [CHR 0x1B, CHR ''O'', CHR ''S'']),
     (''F5'', CHR 0x1B # ''[15~''), (''F6'', CHR 0x1B # ''[17~''),
     (''F7'', CHR 0x1B # ''[18~''), (''F8'', CHR 0x1B # ''[19~''),
     (''F9'', CHR 0x1B # ''[20~''), (''F10'', CHR 0x1B # ''[21~''),
     (''F11'', CHR 0x1B # ''[23~''), (''F12'', CHR 0x1B # ''[24~'')]"



section \<open>Sample inputs\<close>

text \<open>Concrete handlers, events, grids and a renderer, for evaluating the model.\<close>

definition latin1 :: "8 word list \<Rightarrow> string" where
  "latin1 bs = map (\<lambda>b. char_of (unat b)) bs"

definition failing_encoder :: "EncodeRequest \<Rightarrow> string + 8 word list" where
  "failing_encoder req = Inl ''unsupported''"

definition plain_handler :: InputHandler where
  "plain_handler = InputHandler_new failing_encoder latin1 False None"

definition keydown :: "string \<Rightarrow> string \<Rightarrow> bool \<Rightarrow> bool \<Rightarrow> bool \<Rightarrow> bool \<Rightarrow> KeyboardEvent" where
  "keydown c k ctrl alt shift meta =
     \<lparr>code = c, key = k, ctrlKey = ctrl, altKey = alt, shiftKey = shift, metaKey = meta\<rparr>"

definition paste_of :: "string \<Rightarrow> ClipboardEvent" where
  "paste_of t = \<lparr>clipboardData = Some [(''text/plain'', t)]\<rparr>"

definition blank :: Cell where
  "blank = \<lparr>cell_char = '' '', cell_fg = ColorDefault, cell_bg = ColorDefault,
            cell_width = 1, cell_inverse = False, cell_invisible = False\<rparr>"

definition grid :: "nat \<Rightarrow> nat \<Rightarrow> nat \<Rightarrow> nat \<Rightarrow> nat list \<Rightarrow> ScreenBuffer" where
  "grid cols rows cx cy dirty =
     \<lparr>getAllLines = replicate rows (replicate cols blank),
      getCursor = \<lparr>cursor_x = cx, cursor_y = cy, cursor_visible = True\<rparr>,
      getDimensions = \<lparr>dim_cols = cols, dim_rows = rows\<rparr>,
      isDirty = (\<lambda>y. y \<in> set dirty)\<rparr>"

definition default_options :: RendererOptions where
  "default_options =
     \<lparr>opt_fontSize = None, opt_fontFamily = None, opt_cursorStyle = None,
      opt_cursorBlink = None, opt_theme = None, opt_devicePixelRatio = None\<rparr>"

definition cell_8x16 :: FontMetrics where
  "cell_8x16 = \<lparr>width = 8, height = 16, baseline = 12\<rparr>"

text \<open>A renderer on a canvas of the default size 300 by 150, ratio 1, cells of 8 by 16.\<close>

definition fresh_renderer :: CanvasRenderer where
  "fresh_renderer =
     (case CanvasRenderer_new (300, 150) True (Some 1) cell_8x16 default_options of
        Inr r \<Rightarrow> r
      | Inl _ \<Rightarrow> undefined)"

section \<open>Properties of the input handler\<close>

lemma notify_plain:
  "PreventDefault \<notin> set (notify h e) \<and> StopPropagation \<notin> set (notify h e) \<and>
   output_chunks (notify h e) = []"
  by (simp add: notify_def output_chunks_def)

lemma output_chunks_append: "output_chunks (a @ b) = output_chunks a @ output_chunks b"
  by (simp add: output_chunks_def)

lemma encodeKey_paths [simp]: "encodeKey h e k m \<noteq> (PathPrintable, fx)"
  by (simp add: encodeKey_def Let_def split: sum.splits)

lemma mods_none_or_shift:
  "(extractModifiers e = Mods_NONE \<or> extractModifiers e = Mods_SHIFT) \<longleftrightarrow>
   (\<not> ctrlKey e \<and> \<not> altKey e \<and> \<not> metaKey e)"
  by (cases "shiftKey e"; cases "ctrlKey e"; cases "altKey e"; cases "metaKey e")
     (simp_all add: extractModifiers_def Mods_NONE_def Mods_SHIFT_def Mods_CTRL_def
        Mods_ALT_def Mods_SUPER_def)

lemma key_lookups:
  "mapKeyCode ''Enter'' = Some (Key ''ENTER'')"
  "mapKeyCode ''Tab'' = Some (Key ''TAB'')"
  "mapKeyCode ''Escape'' = Some (Key ''ESCAPE'')"
  "mapKeyCode ''ArrowUp'' = Some (Key ''UP'')"
  "mapKeyCode ''ArrowDown'' = Some (Key ''DOWN'')"
  "mapKeyCode ''ArrowRight'' = Some (Key ''RIGHT'')"
  "mapKeyCode ''ArrowLeft'' = Some (Key ''LEFT'')"
  "mapKeyCode ''F1'' = Some (Key ''F1'')"
  "mapKeyCode ''F2'' = Some (Key ''F2'')"
  "mapKeyCode ''F3'' = Some (Key ''F3'')"
  "mapKeyCode ''F4'' = Some (Key ''F4'')"
  "mapKeyCode ''F5'' = Some (Key ''F5'')"
  "mapKeyCode ''F6'' = Some (Key ''F6'')"
  "mapKeyCode ''F7'' = Some (Key ''F7'')"
  "mapKeyCode ''F8'' = Some (Key ''F8'')"
  "mapKeyCode ''F9'' = Some (Key ''F9'')"
  "mapKeyCode ''F10'' = Some (Key ''F10'')"
  "mapKeyCode ''F11'' = Some (Key ''F11'')"
  "mapKeyCode ''F12'' = Some (Key ''F12'')"
  by (simp_all add: mapKeyCode_def KEY_MAP_def)

text \<open>Every entry of the specification's table is an entry of the code's two tables.\<close>

lemma canonical_lookup:
  assumes "map_of spec_canonical_sequences c = Some s"
  shows "\<exists>k. mapKeyCode c = Some k \<and> simpleOutput k = Some s"
proof -
  from assms have "(c, s) \<in> set spec_canonical_sequences"
    by (rule map_of_SomeD)
  then show ?thesis
    unfolding spec_canonical_sequences_def set_simps insert_iff empty_iff prod.inject
    by (elim disjE conjE FalseE; simp add: key_lookups simpleOutput_def ESC_def)
qed

lemma dispose_disposed: "isDisposed (dispose h)"
  by (simp add: dispose_def Let_def)

lemma dispose_idem: "dispose (dispose h) = dispose h"
  using dispose_disposed[of h] by (simp add: dispose_def[of "dispose h"])

lemma dispose_funpow: "(dispose ^^ Suc n) h = dispose h"
  by (induction n) (simp_all add: dispose_idem)

text \<open>
  C1 (corrected). For a keydown event whose key value is a single character, handled by
  an active handler whose custom override, if any, does not consume it, the
  literal-character path is taken exactly when super is inactive and control and alt are
  either both inactive or both active (the AltGr exception of \<open>isPrintableCharacter\<close>),
  control with the physical V key being left to the paste chord; shift plays no part.
  On that path the default is suppressed and the key value is emitted as one chunk. So
  an event with super active, or with exactly one of control and alt active, never takes
  this path, while one with control and alt both active does.
\<close>

theorem printable_path_boundary:
  assumes "length (key e) = 1" and "\<not> isDisposed h" and "\<not> custom_handled h e"
  shows "(fst (handleKeyDown h e) = PathPrintable \<longleftrightarrow>
           \<not> metaKey e \<and> (ctrlKey e \<longleftrightarrow> altKey e) \<and> \<not> (ctrlKey e \<and> code e = ''KeyV'')) \<and>
         (fst (handleKeyDown h e) = PathPrintable \<longrightarrow>
           snd (handleKeyDown h e) = notify h e @ [PreventDefault, OnData (key e)])"
  using assms
  by (auto simp: handleKeyDown_def isPrintableCharacter_def Let_def
        split: option.splits prod.splits)

theorem printable_path_boundary_witness:
  "length (key (keydown ''KeyA'' ''A'' False False True False)) = 1 \<and>
   \<not> isDisposed plain_handler \<and>
   \<not> custom_handled plain_handler (keydown ''KeyA'' ''A'' False False True False) \<and>
   handleKeyDown plain_handler (keydown ''KeyA'' ''A'' False False True False) =
     (PathPrintable, [PreventDefault, OnData ''A''])"
proof -
  let ?e = "keydown ''KeyA'' ''A'' False False True False"
  have a: "length (key ?e) = 1" by code_simp
  have b: "\<not> isDisposed plain_handler" by code_simp
  have c: "\<not> custom_handled plain_handler ?e" by code_simp
  have d: "\<not> metaKey ?e \<and> (ctrlKey ?e \<longleftrightarrow> altKey ?e) \<and> \<not> (ctrlKey ?e \<and> code ?e = ''KeyV'')"
    by code_simp
  have n: "notify plain_handler ?e = []" by code_simp
  have k: "key ?e = ''A''" by code_simp
  from printable_path_boundary[OF a b c] d
  have "fst (handleKeyDown plain_handler ?e) = PathPrintable"
    and "snd (handleKeyDown plain_handler ?e) = [PreventDefault, OnData ''A'']"
    by (simp_all add: n k)
  then have "handleKeyDown plain_handler ?e = (PathPrintable, [PreventDefault, OnData ''A''])"
    by (simp add: prod_eq_iff)
  with a b c show ?thesis by blast
qed

text \<open>
  The claim fails as stated: with control and alt both active (AltGr + Q gives \<open>@\<close> on a
  German layout) the event is handled by the literal-character path.
\<close>

theorem altgr_takes_literal_path:
  "length (key (keydown ''KeyQ'' ''@'' True True False False)) = 1 \<and>
   ctrlKey (keydown ''KeyQ'' ''@'' True True False False) \<and>
   altKey (keydown ''KeyQ'' ''@'' True True False False) \<and>
   handleKeyDown plain_handler (keydown ''KeyQ'' ''@'' True True False False) =
     (PathPrintable, [PreventDefault, OnData ''@''])"
  by code_simp

text \<open>
  C4. A keydown event that reaches the table lookup (active handler, not consumed by the
  custom override, key value not a single character) with modifier set none or
  shift-only, on a physical key of the specification's table, is handled by the simple
  path: after the raw-key notification the default is suppressed and exactly the
  sequence of the table is emitted as the only chunk; nothing follows.
\<close>

theorem canonical_table_outputs:
  assumes "map_of spec_canonical_sequences (code e) = Some s"
    and "extractModifiers e = Mods_NONE \<or> extractModifiers e = Mods_SHIFT"
    and "\<not> isDisposed h" and "\<not> custom_handled h e" and "length (key e) \<noteq> 1"
  shows "handleKeyDown h e = (PathSimple, notify h e @ [PreventDefault, OnData s]) \<and>
         output_chunks (snd (handleKeyDown h e)) = [s]"
proof -
  from assms(1) obtain k where k: "mapKeyCode (code e) = Some k" "simpleOutput k = Some s"
    using canonical_lookup by blast
  from assms(2) have m: "\<not> ctrlKey e" "\<not> altKey e" "\<not> metaKey e"
    using mods_none_or_shift by blast+
  have "handleKeyDown h e = (PathSimple, notify h e @ [PreventDefault, OnData s])"
    using assms(2-5) k m by (simp add: handleKeyDown_def isPrintableCharacter_def)
  then show ?thesis
    by (simp add: output_chunks_append notify_plain) (simp add: output_chunks_def)
qed

theorem canonical_table_outputs_witness:
  "map_of spec_canonical_sequences (code (keydown ''ArrowUp'' ''ArrowUp'' False False True False))
     = Some [CHR 0x1B, CHR ''['', CHR ''A''] \<and>
   extractModifiers (keydown ''ArrowUp'' ''ArrowUp'' False False True False) = Mods_SHIFT \<and>
   length (key (keydown ''ArrowUp'' ''ArrowUp'' False False True False)) \<noteq> 1 \<and>
   handleKeyDown plain_handler (keydown ''ArrowUp'' ''ArrowUp'' False False True False) =
     (PathSimple, [PreventDefault, OnData [CHR 0x1B, CHR ''['', CHR ''A'']])"
proof -
  let ?e = "keydown ''ArrowUp'' ''ArrowUp'' False False True False"
  have a: "map_of spec_canonical_sequences (code ?e) = Some [CHR 0x1B, CHR ''['', CHR ''A'']"
    by code_simp
  have b: "extractModifiers ?e = Mods_SHIFT" by code_simp
  have c: "\<not> isDisposed plain_handler" by code_simp
  have d: "\<not> custom_handled plain_handler ?e" by code_simp
  have l: "length (key ?e) \<noteq> 1" by code_simp
  have n: "notify plain_handler ?e = []" by code_simp
  from canonical_table_outputs[OF a _ c d l] b n a l show ?thesis by simp
qed

text \<open>
  C5. A keydown event for control+V or super+V on the physical V key, or for super+C on
  the physical C key, produces no output chunk; unless a custom override consumed the
  event first, the handler does nothing beyond the raw-key notification and the call of
  the override: it neither suppresses the default nor stops propagation.
\<close>

theorem paste_and_copy_chords_pass_through:
  assumes "((ctrlKey e \<or> metaKey e) \<and> code e = ''KeyV'') \<or> (metaKey e \<and> code e = ''KeyC'')"
    and "\<not> custom_handled h e"
  shows "snd (handleKeyDown h e) = (if isDisposed h then [] else notify h e) \<and>
         output_chunks (snd (handleKeyDown h e)) = [] \<and>
         PreventDefault \<notin> set (snd (handleKeyDown h e)) \<and>
         StopPropagation \<notin> set (snd (handleKeyDown h e))"
proof -
  have "snd (handleKeyDown h e) = (if isDisposed h then [] else notify h e)"
    using assms by (auto simp: handleKeyDown_def)
  then show ?thesis
    using notify_plain[of h e] by (simp add: output_chunks_def)
qed

theorem paste_and_copy_chords_pass_through_witness:
  "metaKey (keydown ''KeyC'' ''c'' False False False True) \<and>
   code (keydown ''KeyC'' ''c'' False False False True) = ''KeyC'' \<and>
   \<not> custom_handled plain_handler (keydown ''KeyC'' ''c'' False False False True) \<and>
   output_chunks (snd (handleKeyDown plain_handler (keydown ''KeyC'' ''c'' False False False True))) = [] \<and>
   PreventDefault \<notin> set (snd (handleKeyDown plain_handler (keydown ''KeyC'' ''c'' False False False True)))"
proof -
  let ?e = "keydown ''KeyC'' ''c'' False False False True"
  have a: "metaKey ?e \<and> code ?e = ''KeyC''" by code_simp
  have b: "\<not> custom_handled plain_handler ?e" by code_simp
  from a have c: "((ctrlKey ?e \<or> metaKey ?e) \<and> code ?e = ''KeyV'') \<or> (metaKey ?e \<and> code ?e = ''KeyC'')"
    by blast
  from paste_and_copy_chords_pass_through[OF c b] a b show ?thesis by blast
qed

text \<open>
  C6. On a paste event an active handler always suppresses the default. Without a
  clipboard payload, or with an empty plain-text payload, it emits no chunk (it logs a
  warning and returns; nothing is thrown); otherwise it emits exactly one chunk, the
  plain-text payload as it is, with nothing wrapped around it.
\<close>

theorem paste_emits_payload_verbatim:
  assumes "\<not> isDisposed h"
  shows "PreventDefault \<in> set (handlePaste h ev) \<and>
         output_chunks (handlePaste h ev) =
           (case clipboardData ev of
              None \<Rightarrow> []
            | Some d \<Rightarrow> (if getData d ''text/plain'' = [] then []
                         else [getData d ''text/plain'']))"
  using assms by (simp add: handlePaste_def output_chunks_def Let_def split: option.splits)

theorem paste_emits_payload_verbatim_witness:
  "\<not> isDisposed plain_handler \<and>
   PreventDefault \<in> set (handlePaste plain_handler (paste_of ''Hello, World!'')) \<and>
   output_chunks (handlePaste plain_handler (paste_of ''Hello, World!'')) = [''Hello, World!'']"
proof -
  have a: "\<not> isDisposed plain_handler" by code_simp
  have d: "clipboardData (paste_of ''Hello, World!'') = Some [(''text/plain'', ''Hello, World!'')]"
    by code_simp
  have g: "getData [(''text/plain'', ''Hello, World!'')] ''text/plain'' = ''Hello, World!''"
    by code_simp
  from paste_emits_payload_verbatim[OF a, of "paste_of ''Hello, World!''"] a show ?thesis
    by (simp add: d g)
qed

text \<open>
  C7. \<open>dispose\<close> has no statement that throws, so it is a total function of the handler,
  on a handler that saw no event as on any other. Calling it again changes nothing, and
  after one or more calls the handler is inactive and every keydown or paste event, given
  to the handlers directly or delivered through the container, causes no call at all:
  no output chunk, no raw-key notification, no bell, no call of the custom override.
\<close>

theorem dispose_silences_handler:
  "(dispose ^^ Suc n) h = dispose h \<and>
   \<not> isActive ((dispose ^^ Suc n) h) \<and>
   handleKeyDown ((dispose ^^ Suc n) h) e = (PathDisposed, []) \<and>
   handlePaste ((dispose ^^ Suc n) h) p = [] \<and>
   dispatchEvent ((dispose ^^ Suc n) h) d = []"
proof -
  have 1: "(dispose ^^ Suc n) h = dispose h" by (rule dispose_funpow)
  have 2: "handleKeyDown (dispose h) e = (PathDisposed, [])" for e
    using dispose_disposed[of h] by (simp add: handleKeyDown_def)
  have 3: "handlePaste (dispose h) p = []" for p
    using dispose_disposed[of h] by (simp add: handlePaste_def)
  have 4: "dispatchEvent (dispose h) d = []"
    by (cases d) (simp_all add: 2 3)
  show ?thesis
    unfolding 1 using 2 3 4 dispose_disposed[of h] by (simp add: isActive_def)
qed

theorem dispose_silences_handler_witness:
  "\<not> isActive ((dispose ^^ Suc 1) plain_handler) \<and>
   handleKeyDown ((dispose ^^ Suc 1) plain_handler) (keydown ''KeyA'' ''a'' False False False False)
     = (PathDisposed, []) \<and>
   dispatchEvent ((dispose ^^ Suc 1) plain_handler) (Paste (paste_of ''Hello, World!'')) = []"
  using dispose_silences_handler[of 1 plain_handler
      "keydown ''KeyA'' ''a'' False False False False" "paste_of ''Hello, World!''"
      "Paste (paste_of ''Hello, World!'')"]
  by blast

text \<open>
  C10. For a keydown event that reaches the advanced encoder (active handler, not
  consumed by the override, neither chord, not a literal character, a mapped key with no
  canonical sequence under its modifiers), if the encoder throws, the handler logs the
  failure and does nothing else: no chunk is emitted, and neither \<open>preventDefault\<close> nor
  \<open>stopPropagation\<close> is called; the handler returns normally.
\<close>

theorem encoder_failure_is_contained:
  assumes "\<not> isDisposed h" and "\<not> custom_handled h e"
    and "\<not> ((ctrlKey e \<or> metaKey e) \<and> code e = ''KeyV'')"
    and "\<not> (metaKey e \<and> code e = ''KeyC'')"
    and "\<not> isPrintableCharacter e"
    and "mapKeyCode (code e) = Some k"
    and "\<not> ((extractModifiers e = Mods_NONE \<or> extractModifiers e = Mods_SHIFT) \<and>
            simpleOutput k \<noteq> None)"
    and "encoder h \<lparr>enc_action = KeyAction_PRESS, enc_key = k,
                    enc_mods = extractModifiers e, enc_utf8 = utf8_hint e\<rparr> = Inl err"
  shows "handleKeyDown h e =
           (PathEncodeFailed,
            notify h e @ [ConsoleWarn [''Failed to encode key:'', code e, err]]) \<and>
         output_chunks (snd (handleKeyDown h e)) = [] \<and>
         PreventDefault \<notin> set (snd (handleKeyDown h e)) \<and>
         StopPropagation \<notin> set (snd (handleKeyDown h e))"
proof -
  have "handleKeyDown h e =
          (PathEncodeFailed, notify h e @ [ConsoleWarn [''Failed to encode key:'', code e, err]])"
    using assms by (auto simp: handleKeyDown_def encodeKey_def Let_def)
  then show ?thesis
    using notify_plain[of h e] by (simp add: output_chunks_def)
qed

theorem encoder_failure_is_contained_witness:
  "\<not> isPrintableCharacter (keydown ''KeyA'' ''a'' True False False False) \<and>
   mapKeyCode (code (keydown ''KeyA'' ''a'' True False False False)) = Some (Key ''A'') \<and>
   handleKeyDown plain_handler (keydown ''KeyA'' ''a'' True False False False) =
     (PathEncodeFailed, [ConsoleWarn [''Failed to encode key:'', ''KeyA'', ''unsupported'']])"
proof -
  let ?e = "keydown ''KeyA'' ''a'' True False False False"
  have a: "\<not> isDisposed plain_handler" by code_simp
  have b: "\<not> custom_handled plain_handler ?e" by code_simp
  have c: "\<not> ((ctrlKey ?e \<or> metaKey ?e) \<and> code ?e = ''KeyV'')" by code_simp
  have d: "\<not> (metaKey ?e \<and> code ?e = ''KeyC'')" by code_simp
  have f: "\<not> isPrintableCharacter ?e" by code_simp
  have g: "mapKeyCode (code ?e) = Some (Key ''A'')" by code_simp
  have i: "\<not> ((extractModifiers ?e = Mods_NONE \<or> extractModifiers ?e = Mods_SHIFT) \<and>
              simpleOutput (Key ''A'') \<noteq> None)" by code_simp
  have j: "encoder plain_handler \<lparr>enc_action = KeyAction_PRESS, enc_key = Key ''A'',
             enc_mods = extractModifiers ?e, enc_utf8 = utf8_hint ?e\<rparr> = Inl ''unsupported''"
    by code_simp
  have n: "notify plain_handler ?e = []" by code_simp
  have co: "code ?e = ''KeyA''" by code_simp
  from encoder_failure_is_contained[OF a b c d f g i j] f g show ?thesis
    by (simp add: n co)
qed

section \<open>Properties of the renderer\<close>

subsection \<open>What a frame repaints\<close>

lemma repainted_append: "repainted (a @ b) = repainted a @ repainted b"
  by (simp add: repainted_def)

lemma repainted_simps:
  "repainted [] = []"
  "repainted (ClearLine y c # ds) = y # repainted ds"
  "repainted (Scale n # ds) = repainted ds"
  "repainted (FillBackground w h # ds) = repainted ds"
  "repainted (RenderCell x y cell # ds) = repainted ds"
  "repainted (RenderCursor x y # ds) = repainted ds"
  "repainted (ClearDirty # ds) = repainted ds"
  by (simp_all add: repainted_def)

lemma repainted_cells:
  "repainted (concat (map (\<lambda>(x, cell). if cell_width cell = 0 then []
                                         else [RenderCell x y cell]) xs)) = []"
  by (induction xs) (auto simp: repainted_append repainted_simps)

lemma repainted_renderLines:
  "repainted (renderLines fa b (enumerate n ls)) =
     filter (\<lambda>y. fa \<or> isDirty b y) [n..<n + length ls]"
proof (induction ls arbitrary: n)
  case Nil
  then show ?case by (simp add: repainted_simps)
next
  case (Cons l ls)
  have "[n..<n + length (l # ls)] = n # [Suc n..<Suc n + length ls]"
    by (subst upt_rec) simp
  then show ?case
    using Cons.IH[of "Suc n"]
    by (simp add: repainted_append repainted_simps repainted_cells del: renderLine.simps upt_Suc)
       (simp add: repainted_simps repainted_cells)
qed

lemma clearDirty_renderLines: "ClearDirty \<notin> set (renderLines fa b xs)"
  by (induction xs) (auto split: if_splits)


lemma redraw_forced: "redrawCursorLines r b True = ([], True)"
  by (simp add: redrawCursorLines_def Let_def)

text \<open>With both cursor rows inside the grid the cursor pass returns.\<close>

lemma redraw_in_range:
  assumes "cursor_y (getCursor b) < length (getAllLines b)"
    and "snd (lastCursorPosition r) < length (getAllLines b)"
  shows "snd (redrawCursorLines r b False) = True \<and>
         repainted (fst (redrawCursorLines r b False)) =
           (if cursorMoved r b \<or> cursorBlink r then
              (if isDirty b (cursor_y (getCursor b)) then [] else [cursor_y (getCursor b)]) @
              (if cursorMoved r b \<and> snd (lastCursorPosition r) \<noteq> cursor_y (getCursor b) \<and>
                  \<not> isDirty b (snd (lastCursorPosition r))
               then [snd (lastCursorPosition r)] else [])
            else [])"
  using assms
  by (simp add: redrawCursorLines_def Let_def at_def repainted_simps repainted_cells
        repainted_append split: prod.splits)

lemma clearDirty_redraw: "ClearDirty \<notin> set (fst (redrawCursorLines r b fa))"
  by (auto simp: redrawCursorLines_def Let_def at_def
        split: prod.splits if_splits option.splits)


text \<open>\<open>render\<close> on a surface that already matches, and on one that does not.\<close>

lemma render_matching:
  assumes "\<not> needsResize r b"
  shows "render r b fa =
     (if \<not> snd (redrawCursorLines r b fa)
      then (fst (redrawCursorLines r b fa), r, Some TypeError)
      else (fst (redrawCursorLines r b fa) @
            renderLines fa b (enumerate 0 (getAllLines b)) @
            (if cursor_visible (getCursor b) \<and> cursorVisible r
             then [RenderCursor (cursor_x (getCursor b)) (cursor_y (getCursor b))] else []) @
            (if \<not> fa then [ClearDirty] else []),
            r\<lparr>lastCursorPosition := (cursor_x (getCursor b), cursor_y (getCursor b))\<rparr>,
            None))"
  using assms by (simp add: render_def Let_def split: prod.splits)

lemma render_resizing:
  assumes "needsResize r b"
  shows "render r b fa =
     (fst (resize (dim_cols (getDimensions b)) (dim_rows (getDimensions b)) r) @
      renderLines True b (enumerate 0 (getAllLines b)) @
      (if cursor_visible (getCursor b) \<and> cursorVisible r
       then [RenderCursor (cursor_x (getCursor b)) (cursor_y (getCursor b))] else []),
      (snd (resize (dim_cols (getDimensions b)) (dim_rows (getDimensions b)) r))
        \<lparr>lastCursorPosition := (cursor_x (getCursor b), cursor_y (getCursor b))\<rparr>,
      None)"
  using assms by (simp add: render_def Let_def redraw_forced resize_def split: prod.splits)

text \<open>
  While the cursor's row and the previously recorded cursor row are both rows of the
  grid, a frame without \<open>forceAll\<close> on a matching surface completes and repaints, each
  once, the lines the buffer reports dirty, together with the cursor's line and its
  previous line when the cursor moved since the last frame or blinking is on.
\<close>

lemma render_in_range_repaints:
  assumes "\<not> needsResize r b"
    and "cursor_y (getCursor b) < length (getAllLines b)"
    and "snd (lastCursorPosition r) < length (getAllLines b)"
  shows "set (repainted (fst (render r b False))) =
           {y. y < length (getAllLines b) \<and> isDirty b y} \<union>
           (if cursorMoved r b \<or> cursorBlink r
            then {cursor_y (getCursor b), snd (lastCursorPosition r)} else {}) \<and>
         distinct (repainted (fst (render r b False))) \<and>
         snd (snd (render r b False)) = None"
proof -
  let ?n = "length (getAllLines b)"
  let ?cy = "cursor_y (getCursor b)"
  let ?ly = "snd (lastCursorPosition r)"
  let ?pre = "repainted (fst (redrawCursorLines r b False))"
  note pre = redraw_in_range[OF assms(2,3)]
  have ok: "snd (redrawCursorLines r b False) = True"
    using pre by blast
  have ops: "repainted (fst (render r b False)) = ?pre @ filter (isDirty b) [0..<?n]"
    using ok repainted_renderLines[of False b 0 "getAllLines b"]
    by (simp add: render_matching[OF assms(1)] repainted_append repainted_simps)
  have thrown: "snd (snd (render r b False)) = None"
    using ok by (simp add: render_matching[OF assms(1)])
  have unmoved: "\<not> cursorMoved r b \<Longrightarrow> ?ly = ?cy"
    by (simp add: cursorMoved_def)
  have pre_set: "set ?pre \<union> {y. y < ?n \<and> isDirty b y} =
      {y. y < ?n \<and> isDirty b y} \<union>
      (if cursorMoved r b \<or> cursorBlink r then {?cy, ?ly} else {})"
    using pre assms(2,3) unmoved by (auto split: if_splits)
  have pre_clean: "\<forall>y \<in> set ?pre. \<not> isDirty b y"
    using pre by (auto split: if_splits)
  have pre_distinct: "distinct ?pre"
    using pre by (auto split: if_splits)
  have "set (repainted (fst (render r b False))) =
      {y. y < ?n \<and> isDirty b y} \<union>
      (if cursorMoved r b \<or> cursorBlink r then {?cy, ?ly} else {})"
    using pre_set by (auto simp: ops)
  moreover have "distinct (repainted (fst (render r b False)))"
    using pre_distinct pre_clean by (auto simp: ops)
  ultimately show ?thesis
    using thrown by blast
qed

text \<open>
  C2 (fails on the code). On a surface that matches the grid, \<open>render\<close> without
  \<open>forceAll\<close> does not always repaint the dirty lines: when the recorded cursor row lies
  beyond the grid's rows and is not reported dirty, the cursor pass clears the band of
  that row, which is no line of the grid, and \<open>renderLine\<close> throws a TypeError before the
  main loop runs. The frame has then repainted at most the cursor's own line, and that
  only when it was not dirty: no dirty line is repainted.
\<close>

theorem stale_cursor_row_starves_dirty_lines:
  assumes "\<not> needsResize r b"
    and "cursor_y (getCursor b) < length (getAllLines b)"
    and "length (getAllLines b) \<le> snd (lastCursorPosition r)"
    and "\<not> isDirty b (snd (lastCursorPosition r))"
  shows "snd (snd (render r b False)) = Some TypeError \<and>
         repainted (fst (render r b False)) =
           (if isDirty b (cursor_y (getCursor b)) then [] else [cursor_y (getCursor b)]) @
           [snd (lastCursorPosition r)] \<and>
         set (repainted (fst (render r b False))) \<inter>
           {y. y < length (getAllLines b) \<and> isDirty b y} = {}"
proof -
  let ?cy = "cursor_y (getCursor b)"
  let ?ly = "snd (lastCursorPosition r)"
  have moved: "cursorMoved r b" and other: "?ly \<noteq> ?cy"
    using assms(2,3) by (auto simp: cursorMoved_def)
  have pass: "redrawCursorLines r b False =
      ((if isDirty b ?cy then []
        else fst (renderLine (Some (getAllLines b ! ?cy)) ?cy (dim_cols (getDimensions b)))) @
       [ClearLine ?ly (dim_cols (getDimensions b))], False)"
    using moved other assms(2,3,4)
    by (simp add: redrawCursorLines_def Let_def at_def split: prod.splits)
  have thrown: "snd (snd (render r b False)) = Some TypeError"
    by (simp add: render_matching[OF assms(1)] pass)
  have ops: "repainted (fst (render r b False)) =
      (if isDirty b ?cy then [] else [?cy]) @ [?ly]"
    by (simp add: render_matching[OF assms(1)] pass repainted_append repainted_simps
          repainted_cells)
  have "set (repainted (fst (render r b False))) \<inter> {y. y < length (getAllLines b) \<and> isDirty b y} = {}"
    using assms(3,4) by (auto simp: ops split: if_splits)
  with thrown ops show ?thesis by blast
qed

text \<open>
  Public operations reach such a state with buffers that keep their contract: a frame on
  three rows with the cursor in row 2, the public \<open>resize\<close> to two rows, then a frame on
  two rows whose line 1 is dirty. Line 1 is not repainted; the bands of rows 0 and 2 are
  cleared.
\<close>

theorem dirty_line_lost_after_resize:
  "buffer_ok (grid 2 3 0 2 []) \<and> buffer_ok (grid 2 2 0 0 [1]) \<and>
   \<not> needsResize (run [Render (grid 2 3 0 2 []) False, Resize 2 2] fresh_renderer)
                  (grid 2 2 0 0 [1]) \<and>
   isDirty (grid 2 2 0 0 [1]) 1 \<and>
   snd (snd (render (run [Render (grid 2 3 0 2 []) False, Resize 2 2] fresh_renderer)
                    (grid 2 2 0 0 [1]) False)) = Some TypeError \<and>
   repainted (fst (render (run [Render (grid 2 3 0 2 []) False, Resize 2 2] fresh_renderer)
                          (grid 2 2 0 0 [1]) False)) = [0, 2]"
proof -
  let ?r = "run [Render (grid 2 3 0 2 []) False, Resize 2 2] fresh_renderer"
  let ?b = "grid 2 2 0 0 [1]"
  have ok: "buffer_ok (grid 2 3 0 2 []) \<and> buffer_ok ?b" by code_simp
  have a: "\<not> needsResize ?r ?b" by code_simp
  have c: "cursor_y (getCursor ?b) < length (getAllLines ?b)" by code_simp
  have y: "snd (lastCursorPosition ?r) = 2" by code_simp
  have n: "length (getAllLines ?b) = 2" by code_simp
  have l: "length (getAllLines ?b) \<le> snd (lastCursorPosition ?r)" by (simp only: y n order_refl)
  have d: "\<not> isDirty ?b (snd (lastCursorPosition ?r))" by code_simp
  have d1: "isDirty ?b 1" by code_simp
  have d0: "\<not> isDirty ?b (cursor_y (getCursor ?b))" and c0: "cursor_y (getCursor ?b) = 0"
    by code_simp+
  from stale_cursor_row_starves_dirty_lines[OF a c l d] d0 c0 y
  have "snd (snd (render ?r ?b False)) = Some TypeError"
    and "repainted (fst (render ?r ?b False)) = [0, 2]"
    by simp_all
  with ok a d1 show ?thesis by blast
qed

text \<open>
  C3 (corrected). \<open>render\<close> forces the pass itself when the surface does not match the
  grid, whatever the \<open>forceAll\<close> argument. If \<open>forceAll\<close> is true or the surface did not
  match, the frame completes, \<open>clearDirty\<close> is not called and every line is repainted
  once, in order. If \<open>forceAll\<close> is false and the surface matched, a frame that completes
  calls \<open>clearDirty\<close> exactly once, as its last call.
\<close>

theorem clearDirty_only_when_not_forced:
  "(needsResize r b \<or> forceAll \<longrightarrow>
      ClearDirty \<notin> set (fst (render r b forceAll)) \<and>
      snd (snd (render r b forceAll)) = None \<and>
      repainted (fst (render r b forceAll)) = [0..<length (getAllLines b)]) \<and>
   (\<not> needsResize r b \<and> \<not> forceAll \<and> snd (snd (render r b forceAll)) = None \<longrightarrow>
      (\<exists>ds. fst (render r b forceAll) = ds @ [ClearDirty] \<and> ClearDirty \<notin> set ds))"
proof (intro conjI impI)
  assume a: "needsResize r b \<or> forceAll"
  show "ClearDirty \<notin> set (fst (render r b forceAll))"
  proof (cases "needsResize r b")
    case True
    then show ?thesis
      by (simp add: render_resizing clearDirty_renderLines resize_def Let_def)
  next
    case False
    with a have "forceAll" by simp
    with False show ?thesis
      by (simp add: render_matching redraw_forced clearDirty_renderLines)
  qed
  show "snd (snd (render r b forceAll)) = None"
  proof (cases "needsResize r b")
    case True
    then show ?thesis by (simp add: render_resizing)
  next
    case False
    with a have "forceAll" by simp
    with False show ?thesis by (simp add: render_matching redraw_forced)
  qed
  show "repainted (fst (render r b forceAll)) = [0..<length (getAllLines b)]"
  proof (cases "needsResize r b")
    case True
    then show ?thesis
      using repainted_renderLines[of True b 0 "getAllLines b"]
      by (simp add: render_resizing repainted_append repainted_simps resize_def Let_def)
  next
    case False
    with a have "forceAll" by simp
    with False show ?thesis
      using repainted_renderLines[of True b 0 "getAllLines b"]
      by (simp add: render_matching redraw_forced repainted_append repainted_simps)
  qed
next
  assume a: "\<not> needsResize r b \<and> \<not> forceAll \<and> snd (snd (render r b forceAll)) = None"
  then have fa: "forceAll = False" and nr: "\<not> needsResize r b" by simp_all
  from a have ok: "snd (redrawCursorLines r b False)"
    by (auto simp: render_matching[OF nr] fa split: if_splits)
  let ?ds = "fst (redrawCursorLines r b False) @
            renderLines False b (enumerate 0 (getAllLines b)) @
            (if cursor_visible (getCursor b) \<and> cursorVisible r
             then [RenderCursor (cursor_x (getCursor b)) (cursor_y (getCursor b))] else [])"
  have "fst (render r b forceAll) = ?ds @ [ClearDirty]"
    using ok by (simp add: render_matching[OF nr] fa)
  moreover have "ClearDirty \<notin> set ?ds"
    by (simp add: clearDirty_redraw clearDirty_renderLines)
  ultimately show "\<exists>ds. fst (render r b forceAll) = ds @ [ClearDirty] \<and> ClearDirty \<notin> set ds"
    by blast
qed

theorem clearDirty_only_when_not_forced_witness:
  "ClearDirty \<notin> set (fst (render fresh_renderer (grid 2 3 0 2 [1]) True)) \<and>
   repainted (fst (render fresh_renderer (grid 2 3 0 2 [1]) True))
     = [0..<length (getAllLines (grid 2 3 0 2 [1]))] \<and>
   \<not> needsResize (run [Render (grid 2 3 0 2 []) False] fresh_renderer) (grid 2 3 1 0 [1]) \<and>
   snd (snd (render (run [Render (grid 2 3 0 2 []) False] fresh_renderer)
                    (grid 2 3 1 0 [1]) False)) = None \<and>
   last (fst (render (run [Render (grid 2 3 0 2 []) False] fresh_renderer)
                     (grid 2 3 1 0 [1]) False)) = ClearDirty"
proof -
  let ?r = "run [Render (grid 2 3 0 2 []) False] fresh_renderer"
  let ?b = "grid 2 3 1 0 [1]"
  have a: "\<not> needsResize ?r ?b" by code_simp
  have t: "snd (snd (render ?r ?b False)) = None" by code_simp
  from clearDirty_only_when_not_forced[of ?r ?b False] a t
  obtain ds where "fst (render ?r ?b False) = ds @ [ClearDirty]"
    by blast
  then have "last (fst (render ?r ?b False)) = ClearDirty"
    by simp
  with clearDirty_only_when_not_forced[of fresh_renderer "grid 2 3 0 2 [1]" True] a t
  show ?thesis by blast
qed

text \<open>
  The claim fails as stated: the first frame on a canvas of the default size is called
  with \<open>forceAll\<close> false, finds the surface of the wrong size, completes, and does not
  call \<open>clearDirty\<close>.
\<close>

theorem resize_frame_skips_clearDirty:
  "needsResize fresh_renderer (grid 2 3 0 2 [1]) \<and>
   snd (snd (render fresh_renderer (grid 2 3 0 2 [1]) False)) = None \<and>
   ClearDirty \<notin> set (fst (render fresh_renderer (grid 2 3 0 2 [1]) False))"
  by code_simp

text \<open>
  C8 (fails on the code). The read of \<open>lines[lastCursorPosition.y]\<close> is out of bounds
  whenever the surface matches the grid, the recorded cursor row lies beyond the grid's
  rows and the buffer does not report that row dirty: nothing forces the pass,
  \<open>renderLine\<close> is given \<open>undefined\<close> and throws a TypeError. The frame stops there: the
  dirty bits are not cleared and the renderer is left as it was, so the next frame on the
  same buffer throws again.
\<close>

theorem stale_cursor_row_read_out_of_bounds:
  assumes "\<not> needsResize r b"
    and "cursor_y (getCursor b) < length (getAllLines b)"
    and "length (getAllLines b) \<le> snd (lastCursorPosition r)"
    and "\<not> isDirty b (snd (lastCursorPosition r))"
  shows "at (getAllLines b) (snd (lastCursorPosition r)) = None \<and>
         snd (snd (render r b False)) = Some TypeError \<and>
         ClearDirty \<notin> set (fst (render r b False)) \<and>
         fst (snd (render r b False)) = r"
proof -
  have out: "at (getAllLines b) (snd (lastCursorPosition r)) = None"
    using assms(3) by (simp add: at_def)
  have moved: "cursorMoved r b" and other: "snd (lastCursorPosition r) \<noteq> cursor_y (getCursor b)"
    using assms(2,3) by (auto simp: cursorMoved_def)
  have "\<not> snd (redrawCursorLines r b False)"
    using out moved other assms(2,4)
    by (simp add: redrawCursorLines_def Let_def at_def split: prod.splits)
  then show ?thesis
    using out clearDirty_redraw[of r b False] by (simp add: render_matching[OF assms(1)])
qed

text \<open>
  The buffers keep their contract, and public operations reach such a state: a frame on
  a grid of three rows leaves the cursor recorded in row 2; the public \<open>resize\<close> then fits
  the canvas to two rows; the next frame, on a grid of two rows, finds the surface
  matching and reads row 2 of a two-row array.
\<close>

theorem stale_cursor_row_after_resize:
  "buffer_ok (grid 2 3 0 2 []) \<and> buffer_ok (grid 2 2 0 0 []) \<and>
   snd (lastCursorPosition (run [Render (grid 2 3 0 2 []) False, Resize 2 2] fresh_renderer))
     = 2 \<and>
   length (getAllLines (grid 2 2 0 0 [])) = 2 \<and>
   snd (snd (render (run [Render (grid 2 3 0 2 []) False, Resize 2 2] fresh_renderer)
                    (grid 2 2 0 0 []) False)) = Some TypeError"
proof -
  let ?r = "run [Render (grid 2 3 0 2 []) False, Resize 2 2] fresh_renderer"
  let ?b = "grid 2 2 0 0 []"
  have ok: "buffer_ok (grid 2 3 0 2 []) \<and> buffer_ok ?b" by code_simp
  have a: "\<not> needsResize ?r ?b" by code_simp
  have c: "cursor_y (getCursor ?b) < length (getAllLines ?b)" by code_simp
  have y: "snd (lastCursorPosition ?r) = 2" by code_simp
  have n: "length (getAllLines ?b) = 2" by code_simp
  have l: "length (getAllLines ?b) \<le> snd (lastCursorPosition ?r)" by (simp add: y n)
  have d: "\<not> isDirty ?b (snd (lastCursorPosition ?r))" by code_simp
  from stale_cursor_row_read_out_of_bounds[OF a c l d] ok y n show ?thesis by blast
qed

subsection \<open>The blink state\<close>















end
